theory Spec2Isabelle
  imports Main "HOL-Library.Word"
begin

unbundle bit_operations_syntax

section \<open>Bytes and the library primitives that brief.go calls\<close>

text \<open>
  The package \<open>brief\<close> (brief.go) is a thin layer over the Go standard library:
  \<open>encoding/base64\<close>, \<open>encoding/binary\<close>, \<open>crypto/sha256\<close>, \<open>crypto/hmac\<close>,
  \<open>crypto/rand\<close>, \<open>strings\<close>, \<open>sync\<close> and \<open>time\<close>. The functions of brief.go are
  embedded one by one in the last section of the definitions; the library functions they
  call are embedded first, each as the function it computes (FIPS 180-4 for SHA-256,
  RFC 2104 for HMAC, RFC 4648 section 5 without padding for \<open>base64.RawURLEncoding\<close>, the
  proleptic Gregorian calendar for \<open>time\<close>).

  A Go \<open>[]byte\<close> is a list of 8-bit words. A nil slice and an empty slice are both the
  empty list, except for \<open>Mint.secret\<close>, where the code tests \<open>m.secret == nil\<close> and the
  model keeps the difference (\<open>None\<close> is nil). A Go \<open>string\<close> is a sequence of bytes,
  here a \<open>string\<close> (a list of 8-bit characters).
\<close>

type_synonym byte = "8 word"
type_synonym bytes = "8 word list"
type_synonym u32 = "32 word"
type_synonym u64 = "64 word"

subsection \<open>encoding/binary\<close>

text \<open>\<open>binary.BigEndian.PutUint64\<close> into a fresh buffer of 8 bytes.\<close>

definition PutUint64 :: "u64 \<Rightarrow> bytes" where
  "PutUint64 v =
     [ucast (drop_bit 56 v), ucast (drop_bit 48 v), ucast (drop_bit 40 v), ucast (drop_bit 32 v),
      ucast (drop_bit 24 v), ucast (drop_bit 16 v), ucast (drop_bit 8 v), ucast v]"

definition PutUint32 :: "u32 \<Rightarrow> bytes" where
  "PutUint32 v = [ucast (drop_bit 24 v), ucast (drop_bit 16 v), ucast (drop_bit 8 v), ucast v]"

subsection \<open>crypto/sha256 (FIPS 180-4)\<close>

definition rotr :: "nat \<Rightarrow> u32 \<Rightarrow> u32" where
  "rotr n x = drop_bit n x OR push_bit (32 - n) x"

definition Ch :: "u32 \<Rightarrow> u32 \<Rightarrow> u32 \<Rightarrow> u32" where
  "Ch x y z = (x AND y) XOR (NOT x AND z)"

definition Maj :: "u32 \<Rightarrow> u32 \<Rightarrow> u32 \<Rightarrow> u32" where
  "Maj x y z = (x AND y) XOR (x AND z) XOR (y AND z)"

definition bsig0 :: "u32 \<Rightarrow> u32" where
  "bsig0 x = rotr 2 x XOR rotr 13 x XOR rotr 22 x"

definition bsig1 :: "u32 \<Rightarrow> u32" where
  "bsig1 x = rotr 6 x XOR rotr 11 x XOR rotr 25 x"

definition ssig0 :: "u32 \<Rightarrow> u32" where
  "ssig0 x = rotr 7 x XOR rotr 18 x XOR drop_bit 3 x"

definition ssig1 :: "u32 \<Rightarrow> u32" where
  "ssig1 x = rotr 17 x XOR rotr 19 x XOR drop_bit 10 x"

text \<open>The round constants, eight for each row of eight rounds.\<close>

definition sha256_K :: "u32 list" where
  "sha256_K = concat [
    [0x428a2f98, 0x71374491, 0xb5c0fbcf, 0xe9b5dba5, 0x3956c25b, 0x59f111f1, 0x923f82a4, 0xab1c5ed5],
    [0xd807aa98, 0x12835b01, 0x243185be, 0x550c7dc3, 0x72be5d74, 0x80deb1fe, 0x9bdc06a7, 0xc19bf174],
    [0xe49b69c1, 0xefbe4786, 0x0fc19dc6, 0x240ca1cc, 0x2de92c6f, 0x4a7484aa, 0x5cb0a9dc, 0x76f988da],
    [0x983e5152, 0xa831c66d, 0xb00327c8, 0xbf597fc7, 0xc6e00bf3, 0xd5a79147, 0x06ca6351, 0x14292967],
    [0x27b70a85, 0x2e1b2138, 0x4d2c6dfc, 0x53380d13, 0x650a7354, 0x766a0abb, 0x81c2c92e, 0x92722c85],
    [0xa2bfe8a1, 0xa81a664b, 0xc24b8b70, 0xc76c51a3, 0xd192e819, 0xd6990624, 0xf40e3585, 0x106aa070],
    [0x19a4c116, 0x1e376c08, 0x2748774c, 0x34b0bcb5, 0x391c0cb3, 0x4ed8aa4a, 0x5b9cca4f, 0x682e6ff3],
    [0x748f82ee, 0x78a5636f, 0x84c87814, 0x8cc70208, 0x90befffa, 0xa4506ceb, 0xbef9a3f7, 0xc67178f2]]"

type_synonym digest = "u32 \<times> u32 \<times> u32 \<times> u32 \<times> u32 \<times> u32 \<times> u32 \<times> u32"

definition sha256_init :: digest where
  "sha256_init = (0x6a09e667, 0xbb67ae85, 0x3c6ef372, 0xa54ff53a,
                  0x510e527f, 0x9b05688c, 0x1f83d9ab, 0x5be0cd19)"

text \<open>The 16 big-endian words of a 64-byte block.\<close>

fun words_of :: "bytes \<Rightarrow> u32 list" where
  "words_of (a # b # c # d # r) =
     (push_bit 24 (ucast a) OR push_bit 16 (ucast b) OR push_bit 8 (ucast c) OR ucast d)
       # words_of r"
| "words_of _ = []"

text \<open>The message schedule: \<open>schedule 48\<close> extends the 16 words of a block to 64.\<close>

fun schedule :: "nat \<Rightarrow> u32 list \<Rightarrow> u32 list" where
  "schedule 0 w = w"
| "schedule (Suc n) w =
     schedule n (w @ [ssig1 (w ! (length w - 2)) + w ! (length w - 7)
                       + ssig0 (w ! (length w - 15)) + w ! (length w - 16)])"

fun round256 :: "digest \<Rightarrow> u32 \<times> u32 \<Rightarrow> digest" where
  "round256 (a, b, c, d, e, f, g, h) (k, w) =
     (let t1 = h + bsig1 e + Ch e f g + k + w;
          t2 = bsig0 a + Maj a b c
      in (t1 + t2, a, b, c, d + t1, e, f, g))"

fun add_digest :: "digest \<Rightarrow> digest \<Rightarrow> digest" where
  "add_digest (a, b, c, d, e, f, g, h) (a', b', c', d', e', f', g', h') =
     (a + a', b + b', c + c', d + d', e + e', f + f', g + g', h + h')"

definition compress :: "digest \<Rightarrow> bytes \<Rightarrow> digest" where
  "compress H block =
     add_digest H (foldl round256 H (zip sha256_K (schedule 48 (words_of block))))"

text \<open>Padding: a 1 bit, zeros up to 56 modulo 64, the bit length as 64 bits big-endian.\<close>

definition sha256_pad :: "bytes \<Rightarrow> bytes" where
  "sha256_pad m = m @ [0x80] @ replicate ((119 - length m mod 64) mod 64) 0
                    @ PutUint64 (of_nat (8 * length m))"

fun sha256_blocks :: "nat \<Rightarrow> digest \<Rightarrow> bytes \<Rightarrow> digest" where
  "sha256_blocks 0 H m = H"
| "sha256_blocks (Suc n) H m = sha256_blocks n (compress H (take 64 m)) (drop 64 m)"

fun digest_bytes :: "digest \<Rightarrow> bytes" where
  "digest_bytes (a, b, c, d, e, f, g, h) =
     PutUint32 a @ PutUint32 b @ PutUint32 c @ PutUint32 d
       @ PutUint32 e @ PutUint32 f @ PutUint32 g @ PutUint32 h"

definition sha256 :: "bytes \<Rightarrow> bytes" where
  "sha256 m =
     (let p = sha256_pad m in digest_bytes (sha256_blocks (length p div 64) sha256_init p))"

subsection \<open>crypto/hmac (RFC 2104) over SHA-256\<close>

text \<open>
  \<open>hmac.New(sha256.New, key)\<close>, the \<open>Write\<close>s of the message and \<open>Sum(nil)\<close>: a key longer
  than the block size of 64 bytes is hashed first, a shorter one is padded with zeros.
  \<open>hash.Hash.Write\<close> never returns an error (the documentation of package \<open>hash\<close>).
\<close>

definition hmac_sha256 :: "bytes \<Rightarrow> bytes \<Rightarrow> bytes" where
  "hmac_sha256 key m =
     (let k0 = (if length key > 64 then sha256 key else key);
          k = k0 @ replicate (64 - length k0) 0
      in sha256 (map (\<lambda>b. b XOR 0x5c) k @ sha256 (map (\<lambda>b. b XOR 0x36) k @ m)))"

text \<open>\<open>hmac.Equal\<close>: a comparison in constant time, true exactly for equal byte sequences.\<close>

definition hmac_Equal :: "bytes \<Rightarrow> bytes \<Rightarrow> bool" where
  "hmac_Equal mac1 mac2 = (mac1 = mac2)"

subsection \<open>crypto/rand\<close>

text \<open>
  The random source is an explicit pool of bytes that the operating system will deliver.
  \<open>rand.Read\<close> of \<open>n\<close> bytes takes the first \<open>n\<close> bytes of the pool; a pool that is too
  short stands for a source that fails, and \<open>rand.Read\<close> returns an error.
\<close>

type_synonym entropy = "bytes"

definition rand_Read :: "nat \<Rightarrow> entropy \<Rightarrow> bytes option \<times> entropy" where
  "rand_Read n pool =
     (if n \<le> length pool then (Some (take n pool), drop n pool) else (None, pool))"

subsection \<open>encoding/base64: RawURLEncoding\<close>

text \<open>
  \<open>base64.RawURLEncoding\<close> is the URL-safe alphabet of RFC 4648 with no padding
  character, and it is not strict: the decoder does not look at the unused low bits of a
  final partial group, and it skips the characters CR and LF wherever they stand.
\<close>

definition encodeURL :: string where
  "encodeURL = ''ABCDEFGHIJKLMNOPQRSTUVWXYZabcdefghijklmnopqrstuvwxyz0123456789-_''"

text \<open>\<open>EncodeToString\<close>: three bytes give four characters; one or two final bytes give
  two or three characters.\<close>

fun EncodeToString :: "bytes \<Rightarrow> string" where
  "EncodeToString (a # b # c # r) =
     (let val = unat a * 65536 + unat b * 256 + unat c
      in [encodeURL ! (val div 262144 mod 64), encodeURL ! (val div 4096 mod 64),
          encodeURL ! (val div 64 mod 64), encodeURL ! (val mod 64)] @ EncodeToString r)"
| "EncodeToString [a, b] =
     (let val = unat a * 65536 + unat b * 256
      in [encodeURL ! (val div 262144 mod 64), encodeURL ! (val div 4096 mod 64),
          encodeURL ! (val div 64 mod 64)])"
| "EncodeToString [a] =
     (let val = unat a * 65536
      in [encodeURL ! (val div 262144 mod 64), encodeURL ! (val div 4096 mod 64)])"
| "EncodeToString [] = []"

text \<open>The decoder's table \<open>decodeMap\<close>: the position of a character in the alphabet.\<close>

fun index_of :: "'a \<Rightarrow> 'a list \<Rightarrow> nat option" where
  "index_of c [] = None"
| "index_of c (x # xs) = (if c = x then Some 0 else map_option Suc (index_of c xs))"

definition decodeMap :: "char \<Rightarrow> nat option" where
  "decodeMap c = index_of c encodeURL"

text \<open>A quantum of four 6-bit values gives three bytes; a final quantum of two or three
  values gives one or two bytes; a final quantum of one value is corrupt input.\<close>

fun decodeQuanta :: "nat list \<Rightarrow> bytes option" where
  "decodeQuanta (a # b # c # d # r) =
     (let val = a * 262144 + b * 4096 + c * 64 + d
      in map_option (\<lambda>t. [of_nat (val div 65536), of_nat (val div 256), of_nat val] @ t)
           (decodeQuanta r))"
| "decodeQuanta [a, b, c] =
     (let val = a * 262144 + b * 4096 + c * 64
      in Some [of_nat (val div 65536), of_nat (val div 256)])"
| "decodeQuanta [a, b] =
     (let val = a * 262144 + b * 4096
      in Some [of_nat (val div 65536)])"
| "decodeQuanta [a] = None"
| "decodeQuanta [] = Some []"

definition isNewline :: "char \<Rightarrow> bool" where
  "isNewline c = (c = CHR 0x0A \<or> c = CHR 0x0D)"

text \<open>\<open>DecodeString\<close>: \<open>None\<close> is the \<open>CorruptInputError\<close>.\<close>

definition DecodeString :: "string \<Rightarrow> bytes option" where
  "DecodeString s =
     (case those (map decodeMap (filter (\<lambda>c. \<not> isNewline c) s)) of
        None \<Rightarrow> None
      | Some vs \<Rightarrow> decodeQuanta vs)"

subsection \<open>strings\<close>

text \<open>\<open>strings.Split(s, sep)\<close> for the one-character separator \<open>sep\<close> of brief.go.\<close>

fun Split :: "string \<Rightarrow> char \<Rightarrow> string list" where
  "Split [] sep = [[]]"
| "Split (c # cs) sep =
     (if c = sep then [] # Split cs sep
      else (case Split cs sep of p # ps \<Rightarrow> (c # p) # ps | [] \<Rightarrow> [[c]]))"

subsection \<open>Decimal numbers (fmt and time)\<close>

definition digit :: "nat \<Rightarrow> char" where
  "digit n = char_of (48 + n)"

text \<open>The decimal form of a natural number, without leading zeros.\<close>

fun itoa :: "nat \<Rightarrow> string" where
  "itoa n = (if n < 10 then [digit n] else itoa (n div 10) @ [digit (n mod 10)])"

declare itoa.simps [simp del]

text \<open>\<open>appendInt\<close> of package time: the decimal form of \<open>x\<close>, a minus sign first when
  \<open>x\<close> is negative, padded with zeros to \<open>width\<close> digits.\<close>

definition appendInt :: "int \<Rightarrow> nat \<Rightarrow> string" where
  "appendInt x width =
     (let ds = itoa (nat \<bar>x\<bar>)
      in (if x < 0 then ''-'' else []) @ replicate (width - length ds) (CHR ''0'') @ ds)"

definition isDigitChar :: "char \<Rightarrow> bool" where
  "isDigitChar c = (48 \<le> (of_char c :: nat) \<and> (of_char c :: nat) \<le> 57)"

text \<open>\<open>isDigit(s, i)\<close> of package time: false beyond the end of the string.\<close>

definition isDigit :: "string \<Rightarrow> nat \<Rightarrow> bool" where
  "isDigit s i = (i < length s \<and> isDigitChar (s ! i))"

definition digitVal :: "char \<Rightarrow> int" where
  "digitVal c = int (of_char c) - 48"

text \<open>The value of a string of decimal digits (\<open>leadingInt\<close> of package time, without
  its overflow check: the strings read here have at most nine digits).\<close>

definition decimal :: "string \<Rightarrow> int" where
  "decimal ds = foldl (\<lambda>x c. x * 10 + digitVal c) 0 ds"

text \<open>\<open>atoi\<close> of package time: an optional sign, then digits only. The empty string
  gives 0, as in the library.\<close>

definition atoi :: "string \<Rightarrow> int option" where
  "atoi s =
     (let neg = (s \<noteq> [] \<and> hd s = CHR ''-'');
          ds = (if s \<noteq> [] \<and> (hd s = CHR ''-'' \<or> hd s = CHR ''+'') then tl s else s)
      in if list_all isDigitChar ds
         then Some ((if neg then -1 else 1) * decimal ds)
         else None)"

text \<open>\<open>getnum\<close>: one or two digits (\<open>fixed\<close> forces two), and the rest of the string.\<close>

definition getnum :: "string \<Rightarrow> bool \<Rightarrow> (int \<times> string) option" where
  "getnum s fixed =
     (if \<not> isDigit s 0 then None
      else if \<not> isDigit s 1 then (if fixed then None else Some (digitVal (s ! 0), drop 1 s))
      else Some (digitVal (s ! 0) * 10 + digitVal (s ! 1), drop 2 s))"

subsection \<open>time\<close>

text \<open>
  A \<open>time.Time\<close> is read through its accessors: \<open>sec\<close> is \<open>t.sec()\<close>, the seconds since
  January 1 of year 1, 00:00:00 UTC, an int64; \<open>nsec\<close> is \<open>t.nsec()\<close>, the nanoseconds
  within the second, below \<open>10^9\<close>; \<open>loc\<close> is the Location. Monotonic clock readings are
  left out: \<open>After\<close> compares wall-clock instants.

  A Location is UTC, the zone of the process (\<open>time.Local\<close>) or a zone with a fixed offset.
  The zone of the process is a parameter \<open>tz\<close> of the functions that format or parse: its
  offset east of UTC in seconds, taken to be one constant (a local zone whose offset
  changes over the year is outside this model).
\<close>

datatype Location = UTC | Local | FixedZone int

record Time =
  sec :: "64 word"
  nsec :: int
  loc :: Location

definition zeroTime :: Time where
  "zeroTime = \<lparr>sec = 0, nsec = 0, loc = UTC\<rparr>"

definition unixToInternal :: int where
  "unixToInternal = (1969 * 365 + 1969 div 4 - 1969 div 100 + 1969 div 400) * 86400"

text \<open>\<open>t.Unix()\<close>, an int64 (the addition wraps around).\<close>

definition Unix :: "Time \<Rightarrow> 64 word" where
  "Unix t = sec t - word_of_int unixToInternal"

definition After :: "Time \<Rightarrow> Time \<Rightarrow> bool" where
  "After t u = (sint (sec t) > sint (sec u) \<or> (sec t = sec u \<and> nsec t > nsec u))"

text \<open>\<open>t.Truncate(time.Second)\<close>: the instant without its nanoseconds.\<close>

definition Truncate_Second :: "Time \<Rightarrow> Time" where
  "Truncate_Second t = t\<lparr>nsec := 0\<rparr>"




definition offset :: "int \<Rightarrow> Location \<Rightarrow> int" where
  "offset tz l = (case l of UTC \<Rightarrow> 0 | Local \<Rightarrow> tz | FixedZone n \<Rightarrow> n)"

definition isLeap :: "int \<Rightarrow> bool" where
  "isLeap year = (year mod 4 = 0 \<and> (year mod 100 \<noteq> 0 \<or> year mod 400 = 0))"

definition daysBefore :: "int list" where
  "daysBefore = [0, 31, 59, 90, 120, 151, 181, 212, 243, 273, 304, 334, 365]"

definition daysIn :: "int \<Rightarrow> int \<Rightarrow> int" where
  "daysIn m year =
     (if m = 2 \<and> isLeap year then 29 else daysBefore ! nat m - daysBefore ! nat (m - 1))"

text \<open>The days from January 1 of year 1 to January 1 of \<open>year\<close>.\<close>

definition daysSinceEpoch :: "int \<Rightarrow> int" where
  "daysSinceEpoch year = (let y = year - 1 in 365 * y + y div 4 - y div 100 + y div 400)"

text \<open>\<open>absDate\<close>: the year, and the day within the year (from 0), of a day counted from
  January 1 of year 1: cycles of 400, 100, 4 and 1 years are cut off in turn.\<close>

definition absDate :: "int \<Rightarrow> int \<times> int" where
  "absDate d =
     (let n400 = d div 146097; d1 = d - 146097 * n400;
          n = d1 div 36524; n100 = n - n div 4; d2 = d1 - 36524 * n100;
          n4 = d2 div 1461; d3 = d2 - 1461 * n4;
          m = d3 div 365; n1 = m - m div 4; yday = d3 - 365 * n1
      in (1 + 400 * n400 + 100 * n100 + 4 * n4 + n1, yday))"

text \<open>\<open>t.Date()\<close>: year, month (1 to 12) and day of the month of a day number.\<close>

definition dateOf :: "int \<Rightarrow> int \<times> int \<times> int" where
  "dateOf d =
     (let (year, yday) = absDate d
      in if isLeap year \<and> yday = 31 + 29 - 1 then (year, 2, 29)
         else
           (let day = (if isLeap year \<and> yday > 31 + 29 - 1 then yday - 1 else yday);
                month = day div 31;
                stop = daysBefore ! nat (month + 1)
            in if day \<ge> stop then (year, month + 2, day - stop + 1)
               else (year, month + 1, day - daysBefore ! nat month + 1)))"

text \<open>\<open>t.abs()\<close>: the seconds of \<open>t\<close> in its Location, counted here from January 1 of
  year 1 (the library counts them from an earlier year, so that they are not negative).\<close>

definition absSec :: "int \<Rightarrow> Time \<Rightarrow> int" where
  "absSec tz t = sint (sec t) + offset tz (loc t)"

text \<open>\<open>absClock\<close>: hour, minute and second within the day.\<close>

definition absClock :: "int \<Rightarrow> int \<times> int \<times> int" where
  "absClock a =
     (let s = a mod 86400;
          hour = s div 3600; s' = s - hour * 3600;
          minute = s' div 60
      in (hour, minute, s' - minute * 60))"

text \<open>\<open>t.Year()\<close>.\<close>

definition Year :: "int \<Rightarrow> Time \<Rightarrow> int" where
  "Year tz t = fst (dateOf (absSec tz t div 86400))"

text \<open>\<open>t.Format(timeLayout)\<close> for the layout \<open>20060102150405\<close> of brief.go, which the
  library reads as the year in four digits, then month, day, hour (of 24), minute and
  second in two digits each, in the Location of \<open>t\<close>.\<close>

definition Format :: "int \<Rightarrow> Time \<Rightarrow> string" where
  "Format tz t =
     (let a = absSec tz t;
          (year, month, day) = dateOf (a div 86400);
          (hour, minute, second) = absClock a
      in appendInt year 4 @ appendInt month 2 @ appendInt day 2
           @ appendInt hour 2 @ appendInt minute 2 @ appendInt second 2)"

text \<open>\<open>Date(year, month, day, hour, min, sec, nsec, loc)\<close> for fields that are in range,
  as \<open>Parse\<close> passes them.\<close>

definition Date ::
  "int \<Rightarrow> int \<Rightarrow> int \<Rightarrow> int \<Rightarrow> int \<Rightarrow> int \<Rightarrow> int \<Rightarrow> int \<Rightarrow> Location \<Rightarrow> Time" where
  "Date year month day hour minute second ns tz l =
     (let d = daysSinceEpoch year + daysBefore ! nat (month - 1)
                + (if isLeap year \<and> month \<ge> 3 then 1 else 0) + (day - 1);
          abs = d * 86400 + hour * 3600 + minute * 60 + second
      in \<lparr>sec = word_of_int (abs - offset tz l), nsec = ns, loc = l\<rparr>)"

definition commaOrPeriod :: "char \<Rightarrow> bool" where
  "commaOrPeriod c = (c = CHR ''.'' \<or> c = CHR '','')"

text \<open>\<open>parseNanoseconds(value, nbytes)\<close>: the digits after the separator, at most nine of
  them, scaled to nanoseconds.\<close>

definition parseNanoseconds :: "string \<Rightarrow> nat \<Rightarrow> int option" where
  "parseNanoseconds v nbytes =
     (if \<not> commaOrPeriod (v ! 0) then None
      else
        (let n = (if nbytes > 10 then 10 else nbytes);
             v' = (if nbytes > 10 then take 10 v else v)
         in case atoi (take (n - 1) (drop 1 v')) of
              None \<Rightarrow> None
            | Some ns \<Rightarrow> if ns < 0 then None else Some (ns * 10 ^ (10 - n))))"

text \<open>A fractional second in the input that the layout does not have: the library accepts
  it after the seconds field. The result is the nanoseconds and the rest of the input.\<close>

definition fracSecond :: "string \<Rightarrow> (int \<times> string) option" where
  "fracSecond v =
     (if length v \<ge> 2 \<and> commaOrPeriod (v ! 0) \<and> isDigit v 1
      then
        (let n = 1 + length (takeWhile isDigitChar (drop 1 v))
         in case parseNanoseconds v n of
              None \<Rightarrow> None
            | Some ns \<Rightarrow> Some (ns, drop n v))
      else Some (0, v))"

text \<open>\<open>time.ParseInLocation(timeLayout, value, time.Local)\<close>; \<open>None\<close> is the
  \<open>ParseError\<close>. The fields are read in the order of the layout, each range check where
  the library has it, the day of the month last.\<close>

definition ParseInLocation :: "int \<Rightarrow> string \<Rightarrow> Time option" where
  "ParseInLocation tz v =
     (if length v < 4 \<or> \<not> isDigit v 0 then None
      else case atoi (take 4 v) of None \<Rightarrow> None | Some year \<Rightarrow>
        (case getnum (drop 4 v) True of None \<Rightarrow> None | Some (month, v1) \<Rightarrow>
          if month \<le> 0 \<or> 12 < month then None else
        (case getnum v1 True of None \<Rightarrow> None | Some (day, v2) \<Rightarrow>
        (case getnum v2 False of None \<Rightarrow> None | Some (hour, v3) \<Rightarrow>
          if hour < 0 \<or> 24 \<le> hour then None else
        (case getnum v3 True of None \<Rightarrow> None | Some (minute, v4) \<Rightarrow>
          if minute < 0 \<or> 60 \<le> minute then None else
        (case getnum v4 True of None \<Rightarrow> None | Some (second, v5) \<Rightarrow>
          if second < 0 \<or> 60 \<le> second then None else
        (case fracSecond v5 of None \<Rightarrow> None | Some (ns, v6) \<Rightarrow>
          if v6 \<noteq> [] then None
          else if day < 1 \<or> day > daysIn month year then None
          else Some (Date year month day hour minute second ns tz Local))))))))"

section \<open>The package brief (brief.go)\<close>

subsection \<open>Errors\<close>

text \<open>
  An error is made by \<open>errors.New\<close> or by \<open>fmt.Errorf\<close>; of the latter the model keeps the
  formatted message and the operands of the \<open>%w\<close> verbs, which \<open>errors.Is\<close> searches.
  A panic is an outcome of its own.
\<close>

datatype error = New string | Errorf string "error list"

fun Error :: "error \<Rightarrow> string" where
  "Error (New s) = s"
| "Error (Errorf s es) = s"

fun errors_Is :: "error \<Rightarrow> error \<Rightarrow> bool" where
  "errors_Is (New s) target = (New s = target)"
| "errors_Is (Errorf s es) target = (Errorf s es = target \<or> (\<exists>e \<in> set es. errors_Is e target))"

datatype 'a outcome = Panic error | Return 'a

definition ErrFormat :: error where "ErrFormat = New ''format invalid''"
definition ErrParse :: error where "ErrParse = New ''parsing''"
definition ErrFieldData :: error where "ErrFieldData = New ''data''"
definition ErrFieldSignature :: error where "ErrFieldSignature = New ''signature''"
definition ErrFieldExpiry :: error where "ErrFieldExpiry = New ''expiry''"
definition ErrDecoding :: error where "ErrDecoding = New ''decoding''"
definition ErrVerifySignature :: error where "ErrVerifySignature = New ''invalid signature''"
definition ErrVerifyExpiry :: error where "ErrVerifyExpiry = New ''expired''"

text \<open>The error that \<open>rand.Read\<close> returns when the source fails; brief.go only wraps it.\<close>

definition ErrRand :: error where "ErrRand = New ''crypto/rand: read failed''"

subsection \<open>Token\<close>

definition sep :: char where "sep = CHR ''.''"

definition Encode :: "bytes \<Rightarrow> string" where
  "Encode data = EncodeToString data"

record Token =
  Data :: bytes
  Expiry :: Time
  Signature :: bytes

definition zeroToken :: Token where
  "zeroToken = \<lparr>Data = [], Expiry = zeroTime, Signature = []\<rparr>"

definition Token_String :: "int \<Rightarrow> Token \<Rightarrow> string" where
  "Token_String tz t = Encode (Data t) @ [sep] @ Format tz (Expiry t) @ [sep] @ Encode (Signature t)"

definition FromString :: "int \<Rightarrow> string \<Rightarrow> Token \<times> error option" where
  "FromString tz s =
     (let t = zeroToken; parts = Split s sep
      in if length parts \<noteq> 3
         then (t, Some (Errorf (Error ErrParse @ '' ('' @ Error ErrFormat @ ''): ''
                                  @ itoa (length parts) @ '' parts, expect 3'')
                               [ErrParse, ErrFormat]))
         else
           (case DecodeString (parts ! 0) of
              None \<Rightarrow>
                (t, Some (Errorf (Error ErrParse @ '' ('' @ Error ErrDecoding @ ''): ''
                                    @ Error ErrFieldData @ '' ('' @ parts ! 0 @ '')'')
                                 [ErrParse, ErrDecoding, ErrFieldData]))
            | Some data \<Rightarrow>
                (let t = t\<lparr>Data := data\<rparr>
                 in case ParseInLocation tz (parts ! 1) of
                      None \<Rightarrow>
                        (t, Some (Errorf (Error ErrParse @ '': '' @ Error ErrFieldExpiry
                                            @ '' ('' @ parts ! 1 @ '')'')
                                         [ErrParse, ErrFieldExpiry]))
                    | Some expiry \<Rightarrow>
                        (let t = t\<lparr>Expiry := expiry\<rparr>
                         in case DecodeString (parts ! 2) of
                              None \<Rightarrow>
                                (t, Some (Errorf (Error ErrParse @ '' ('' @ Error ErrDecoding
                                                    @ ''): '' @ Error ErrFieldSignature
                                                    @ '' ('' @ parts ! 2 @ '')'')
                                                 [ErrParse, ErrDecoding, ErrFieldSignature]))
                            | Some sig \<Rightarrow> (t\<lparr>Signature := sig\<rparr>, None)))))"

subsection \<open>Mint\<close>

text \<open>
  A Mint is its secret (\<open>None\<close> is the nil slice of the zero value) and whether its
  \<open>sync.Once\<close> has run. A method of \<open>*Mint\<close> takes the Mint and the random source and,
  unless it panics, returns them with its results, which are the pair of Go:
  a Token and an error (\<open>None\<close> is the nil error). \<open>Verify\<close> also takes the instant that
  \<open>time.Now()\<close> returns.
\<close>

record Mint =
  secret :: "bytes option"
  once :: bool

definition zeroMint :: Mint where
  "zeroMint = \<lparr>secret = None, once = False\<rparr>"

definition NewMint :: "bytes option \<Rightarrow> Mint" where
  "NewMint s = \<lparr>secret = s, once = False\<rparr>"

text \<open>\<open>m.once.Do(func() { ... })\<close> of \<open>createSignature\<close>: the function runs at the first
  call only, and fills a nil secret with 256 random bytes or panics.\<close>

definition once_Do :: "Mint \<Rightarrow> entropy \<Rightarrow> (Mint \<times> entropy) outcome" where
  "once_Do m rng =
     (if once m then Return (m, rng)
      else if secret m = None then
        (case rand_Read 256 rng of
           (None, rng') \<Rightarrow>
             Panic (Errorf (''rand.Read(Mint.secret): '' @ Error ErrRand) [ErrRand])
         | (Some s, rng') \<Rightarrow> Return (m\<lparr>secret := Some s, once := True\<rparr>, rng'))
      else Return (m\<lparr>once := True\<rparr>, rng))"

text \<open>The key that \<open>hmac.New(sha256.New, m.secret)\<close> receives: a nil slice is an empty key.\<close>

definition key :: "Mint \<Rightarrow> bytes" where
  "key m = (case secret m of None \<Rightarrow> [] | Some s \<Rightarrow> s)"

definition createSignature ::
  "Mint \<Rightarrow> entropy \<Rightarrow> bytes \<Rightarrow> Time \<Rightarrow> ((bytes \<times> error option) \<times> Mint \<times> entropy) outcome" where
  "createSignature m rng data expires =
     (case once_Do m rng of
        Panic e \<Rightarrow> Panic e
      | Return (m', rng') \<Rightarrow>
          (let timeBuf = PutUint64 (Unix expires)
           in Return ((hmac_sha256 (key m') (data @ timeBuf), None), m', rng')))"

definition Sign ::
  "Mint \<Rightarrow> entropy \<Rightarrow> bytes \<Rightarrow> Time \<Rightarrow> ((Token \<times> error option) \<times> Mint \<times> entropy) outcome" where
  "Sign m rng data expires =
     (let t = \<lparr>Data = data, Expiry = expires, Signature = []\<rparr>
      in case createSignature m rng data expires of
           Panic e \<Rightarrow> Panic e
         | Return ((sig, err), m', rng') \<Rightarrow>
             (case err of
                Some e \<Rightarrow>
                  Return ((t, Some (Errorf (''Mint.Sign, could not create signature: '' @ Error e)
                                      [e])), m', rng')
              | None \<Rightarrow> Return ((t\<lparr>Signature := sig\<rparr>, None), m', rng')))"

text \<open>\<open>make([]byte, dataLen)\<close> panics when the length is negative or above the largest
  allocation of the runtime, \<open>maxAlloc\<close>, which is \<open>2^48\<close> bytes on the 64-bit platforms
  (\<open>dataLen\<close> is an \<open>int\<close> of 64 bits there).\<close>

definition maxAlloc :: int where
  "maxAlloc = 2 ^ 48"

definition Generate ::
  "Mint \<Rightarrow> entropy \<Rightarrow> int \<Rightarrow> Time \<Rightarrow> ((Token \<times> error option) \<times> Mint \<times> entropy) outcome" where
  "Generate m rng dataLen expires =
     (if dataLen < 0 \<or> maxAlloc < dataLen
      then Panic (New ''runtime error: makeslice: len out of range'')
      else case rand_Read (nat dataLen) rng of
             (None, rng') \<Rightarrow>
               Return ((zeroToken,
                        Some (Errorf (''Mint.Generate, rand.Read(data): '' @ Error ErrRand)
                                [ErrRand])), m, rng')
           | (Some data, rng') \<Rightarrow> Sign m rng' data expires)"

definition Verify ::
  "Mint \<Rightarrow> entropy \<Rightarrow> Time \<Rightarrow> Token \<Rightarrow> ((Token \<times> error option) \<times> Mint \<times> entropy) outcome" where
  "Verify m rng now b =
     (if After now (Expiry b) then Return ((b, Some ErrVerifyExpiry), m, rng)
      else case createSignature m rng (Data b) (Expiry b) of
             Panic e \<Rightarrow> Panic e
           | Return ((sig, err), m', rng') \<Rightarrow>
               (case err of
                  Some e \<Rightarrow>
                    Return ((b, Some (Errorf (''Mint.Verify, could not create signature: ''
                                                @ Error e) [e])), m', rng')
                | None \<Rightarrow>
                    (let sigOK = hmac_Equal (Signature b) sig
                     in if \<not> sigOK then Return ((b, Some ErrVerifySignature), m', rng')
                        else Return ((b, None), m', rng'))))"

definition VerifyString ::
  "int \<Rightarrow> Mint \<Rightarrow> entropy \<Rightarrow> Time \<Rightarrow> string
     \<Rightarrow> ((Token \<times> error option) \<times> Mint \<times> entropy) outcome" where
  "VerifyString tz m rng now s =
     (case FromString tz s of
        (b, Some err) \<Rightarrow> Return ((b, Some err), m, rng)
      | (b, None) \<Rightarrow> Verify m rng now b)"

subsection \<open>Well-formed fields of a serialized token\<close>

text \<open>
  What the two decoders accept, said without running them. \<open>validBase64URL\<close>: once the
  characters CR and LF are dropped, every character is of the URL-safe alphabet and the
  number of characters is not 1 modulo 4. \<open>validTimestamp\<close>: fourteen digits that read as
  year, month, day, hour, minute and second of a date that exists and a time of day, and
  after them either nothing or a comma or period followed by one or more digits, a
  fractional second. \<open>digits2\<close> and \<open>digits4\<close> are a number in exactly two and four
  decimal digits.
\<close>

definition validBase64URL :: "string \<Rightarrow> bool" where
  "validBase64URL s =
     (let cs = filter (\<lambda>c. \<not> isNewline c) s
      in list_all (\<lambda>c. c \<in> set encodeURL) cs \<and> length cs mod 4 \<noteq> 1)"

definition validTimestamp :: "string \<Rightarrow> bool" where
  "validTimestamp v =
     (14 \<le> length v \<and> list_all isDigitChar (take 14 v)
      \<and> (let year = decimal (take 4 v); month = decimal (take 2 (drop 4 v));
              day = decimal (take 2 (drop 6 v)); hour = decimal (take 2 (drop 8 v));
              minute = decimal (take 2 (drop 10 v)); second = decimal (take 2 (drop 12 v))
          in 1 \<le> month \<and> month \<le> 12 \<and> 1 \<le> day \<and> day \<le> daysIn month year
             \<and> hour < 24 \<and> minute < 60 \<and> second < 60)
      \<and> (case drop 14 v of
            [] \<Rightarrow> True
          | c # ds \<Rightarrow> commaOrPeriod c \<and> ds \<noteq> [] \<and> list_all isDigitChar ds))"

definition digits2 :: "nat \<Rightarrow> string" where
  "digits2 n = [digit (n div 10), digit (n mod 10)]"

definition digits4 :: "nat \<Rightarrow> string" where
  "digits4 n =
     [digit (n div 1000), digit (n div 100 mod 10), digit (n div 10 mod 10), digit (n mod 10)]"

subsection \<open>Sequences of calls on one Mint\<close>

text \<open>
  The claims about the lifetime of a Mint speak of every sequence of \<open>Sign\<close>, \<open>Generate\<close>
  and \<open>Verify\<close> calls on it. A call is one of the three with its arguments (and, for
  \<open>Verify\<close>, the instant of the call); \<open>run\<close> makes the calls in order, each on the Mint
  and the random source that the call before left, and stops at a panic.
\<close>

datatype call = CallSign bytes Time | CallGenerate int Time | CallVerify Time Token

fun step ::
  "Mint \<Rightarrow> entropy \<Rightarrow> call \<Rightarrow> ((Token \<times> error option) \<times> Mint \<times> entropy) outcome" where
  "step m rng (CallSign data expires) = Sign m rng data expires"
| "step m rng (CallGenerate dataLen expires) = Generate m rng dataLen expires"
| "step m rng (CallVerify now b) = Verify m rng now b"

fun run ::
  "Mint \<Rightarrow> entropy \<Rightarrow> call list
     \<Rightarrow> ((Token \<times> error option) list \<times> Mint \<times> entropy) outcome" where
  "run m rng [] = Return ([], m, rng)"
| "run m rng (c # cs) =
     (case step m rng c of
        Panic e \<Rightarrow> Panic e
      | Return (r, m', rng') \<Rightarrow>
          (case run m' rng' cs of
             Panic e \<Rightarrow> Panic e
           | Return (rs, m'', rng'') \<Rightarrow> Return (r # rs, m'', rng'')))"




section \<open>Properties\<close>

subsection \<open>Signatures\<close>

lemma length_digest_bytes: "length (digest_bytes d) = 32"
  by (induction d rule: digest_bytes.induct) (simp add: PutUint32_def)

lemma length_sha256: "length (sha256 m) = 32"
  by (simp add: sha256_def Let_def length_digest_bytes)

lemma length_hmac_sha256: "length (hmac_sha256 k m) = 32"
  by (simp add: hmac_sha256_def Let_def length_sha256)

lemma hmac_sha256_not_Nil: "hmac_sha256 k m \<noteq> []" "[] \<noteq> hmac_sha256 k m"
  using length_hmac_sha256 [of k m] by auto

lemma length_PutUint64: "length (PutUint64 v) = 8"
  by (simp add: PutUint64_def)

lemma once_Do_once: "once m \<Longrightarrow> once_Do m rng = Return (m, rng)"
  by (simp add: once_Do_def)

lemma once_Do_secret:
  "secret m = Some s \<Longrightarrow> once_Do m rng = Return (m\<lparr>once := True\<rparr>, rng)"
  by (cases "once m") (simp_all add: once_Do_def)

lemma once_Do_nil:
  "secret m = None \<Longrightarrow> \<not> once m \<Longrightarrow>
   once_Do m rng =
     (if 256 \<le> length rng
      then Return (m\<lparr>secret := Some (take 256 rng), once := True\<rparr>, drop 256 rng)
      else Panic (Errorf (''rand.Read(Mint.secret): '' @ Error ErrRand) [ErrRand]))"
  by (simp add: once_Do_def rand_Read_def)

lemma Sign_eq:
  "Sign m rng data expires =
     (case once_Do m rng of
        Panic e \<Rightarrow> Panic e
      | Return (m', rng') \<Rightarrow>
          Return ((\<lparr>Data = data, Expiry = expires,
                    Signature = hmac_sha256 (key m') (data @ PutUint64 (Unix expires))\<rparr>, None),
                  m', rng'))"
  by (simp add: Sign_def createSignature_def Let_def split: outcome.splits prod.splits)

lemma Verify_eq:
  "Verify m rng now b =
     (if After now (Expiry b) then Return ((b, Some ErrVerifyExpiry), m, rng)
      else case once_Do m rng of
        Panic e \<Rightarrow> Panic e
      | Return (m', rng') \<Rightarrow>
          Return ((b, if Signature b = hmac_sha256 (key m') (Data b @ PutUint64 (Unix (Expiry b)))
                      then None else Some ErrVerifySignature), m', rng'))"
  by (simp add: Verify_def createSignature_def hmac_Equal_def Let_def
           split: outcome.splits prod.splits)



lemma createSignature_eq:
  "createSignature m rng data expires =
     (case once_Do m rng of
        Panic e \<Rightarrow> Panic e
      | Return (m', rng') \<Rightarrow>
          Return ((hmac_sha256 (key m') (data @ PutUint64 (Unix expires)), None), m', rng'))"
  by (simp add: createSignature_def Let_def split: outcome.splits)

lemma createSignature_secret:
  "secret m = Some s \<Longrightarrow>
   createSignature m rng d e
     = Return ((hmac_sha256 s (d @ PutUint64 (Unix e)), None), m\<lparr>once := True\<rparr>, rng)"
  by (simp add: createSignature_eq once_Do_secret key_def)

lemma createSignature_once:
  "once m \<Longrightarrow>
   createSignature m rng d e
     = Return ((hmac_sha256 (key m) (d @ PutUint64 (Unix e)), None), m, rng)"
  by (simp add: createSignature_eq once_Do_once)

lemma Unix_eq_iff: "Unix t = Unix u \<longleftrightarrow> sec t = sec u"
  by (simp add: Unix_def)

lemma not_Is_signature_expiry: "\<not> errors_Is ErrVerifySignature ErrVerifyExpiry"
  by (simp add: ErrVerifySignature_def ErrVerifyExpiry_def)

lemma After_asym: "After t u \<Longrightarrow> \<not> After u t"
  by (auto simp: After_def)



text \<open>
  Claim C2. When the current time is strictly after the expiry of a token, \<open>Verify\<close>
  returns the token with the expired error, whatever the Signature of the token is, and
  leaves the Mint and the random source as they were: the signature is not computed and
  a secret that is still missing is not generated. When the current time is not strictly
  after the expiry, no error that \<open>Verify\<close> returns is or wraps the expired error.
\<close>

theorem C2_expiry_precedence:
  "(After now (Expiry b) \<longrightarrow>
      Verify m rng now b = Return ((b, Some ErrVerifyExpiry), m, rng)
      \<and> Verify m rng now (b\<lparr>Signature := sig\<rparr>)
          = Return ((b\<lparr>Signature := sig\<rparr>, Some ErrVerifyExpiry), m, rng))
   \<and> (\<not> After now (Expiry b) \<longrightarrow>
        (\<forall>t err m' rng'. Verify m rng now b = Return ((t, Some err), m', rng')
           \<longrightarrow> \<not> errors_Is err ErrVerifyExpiry))"
  by (auto simp add: Verify_eq not_Is_signature_expiry split: outcome.splits if_splits)

theorem C2_expiry_precedence_witness:
  "After \<lparr>sec = 30, nsec = 0, loc = UTC\<rparr>
      (Expiry \<lparr>Data = [1], Expiry = \<lparr>sec = 20, nsec = 0, loc = UTC\<rparr>, Signature = []\<rparr>)
   \<and> Verify zeroMint [] \<lparr>sec = 30, nsec = 0, loc = UTC\<rparr>
         \<lparr>Data = [1], Expiry = \<lparr>sec = 20, nsec = 0, loc = UTC\<rparr>, Signature = []\<rparr>
       = Return ((\<lparr>Data = [1], Expiry = \<lparr>sec = 20, nsec = 0, loc = UTC\<rparr>, Signature = []\<rparr>,
                  Some ErrVerifyExpiry), zeroMint, [])
   \<and> \<not> After \<lparr>sec = 20, nsec = 0, loc = UTC\<rparr>
      (Expiry \<lparr>Data = [1], Expiry = \<lparr>sec = 20, nsec = 0, loc = UTC\<rparr>, Signature = []\<rparr>)
   \<and> Verify (NewMint (Some [7])) [] \<lparr>sec = 20, nsec = 0, loc = UTC\<rparr>
         \<lparr>Data = [1], Expiry = \<lparr>sec = 20, nsec = 0, loc = UTC\<rparr>, Signature = []\<rparr>
       = Return ((\<lparr>Data = [1], Expiry = \<lparr>sec = 20, nsec = 0, loc = UTC\<rparr>, Signature = []\<rparr>,
                  Some ErrVerifySignature), \<lparr>secret = Some [7], once = True\<rparr>, [])
   \<and> \<not> errors_Is ErrVerifySignature ErrVerifyExpiry"
  using C2_expiry_precedence
          [of "\<lparr>sec = 30, nsec = 0, loc = UTC\<rparr>"
              "\<lparr>Data = [1], Expiry = \<lparr>sec = 20, nsec = 0, loc = UTC\<rparr>, Signature = []\<rparr>"
              zeroMint "[]" "[]"]
        C2_expiry_precedence
          [of "\<lparr>sec = 20, nsec = 0, loc = UTC\<rparr>"
              "\<lparr>Data = [1], Expiry = \<lparr>sec = 20, nsec = 0, loc = UTC\<rparr>, Signature = []\<rparr>"
              "NewMint (Some [7])" "[]" "[]"]
  by (simp add: After_def Verify_eq NewMint_def once_Do_def key_def hmac_sha256_not_Nil)

text \<open>
  Claim C9. The signature covers the whole seconds of the expiry only. For two expiry
  instants with the same Unix seconds, \<open>Sign\<close> of a payload gives the same result but
  for the Expiry field (the same Signature, the same Mint and random source afterwards),
  and \<open>Verify\<close>, at a time that is after neither, gives the same verdict on a token
  whether it carries the one expiry or the other: moving the expiry within its second
  does not invalidate the signature.
\<close>

theorem C9_whole_seconds_only:
  "Unix e1 = Unix e2 \<longrightarrow>
     Sign m rng data e2 =
       (case Sign m rng data e1 of
          Panic e \<Rightarrow> Panic e
        | Return ((t, err), m', rng') \<Rightarrow> Return ((t\<lparr>Expiry := e2\<rparr>, err), m', rng'))
     \<and> (\<not> After now e1 \<and> \<not> After now e2 \<longrightarrow>
          Verify m rng now (b\<lparr>Expiry := e2\<rparr>) =
            (case Verify m rng now (b\<lparr>Expiry := e1\<rparr>) of
               Panic e \<Rightarrow> Panic e
             | Return ((t, err), m', rng') \<Rightarrow> Return ((t\<lparr>Expiry := e2\<rparr>, err), m', rng')))"
  by (auto simp add: Sign_eq Verify_eq split: outcome.splits)

theorem C9_whole_seconds_only_witness:
  "Unix \<lparr>sec = 20, nsec = 0, loc = UTC\<rparr> = Unix \<lparr>sec = 20, nsec = 999999999, loc = UTC\<rparr>
   \<and> Sign (NewMint (Some [7])) [] [1] \<lparr>sec = 20, nsec = 999999999, loc = UTC\<rparr>
       = Return ((\<lparr>Data = [1], Expiry = \<lparr>sec = 20, nsec = 999999999, loc = UTC\<rparr>,
                    Signature = hmac_sha256 [7] ([1] @ PutUint64 (Unix \<lparr>sec = 20, nsec = 0, loc = UTC\<rparr>))\<rparr>, None),
                 \<lparr>secret = Some [7], once = True\<rparr>, [])
   \<and> \<not> After \<lparr>sec = 10, nsec = 0, loc = UTC\<rparr> \<lparr>sec = 20, nsec = 0, loc = UTC\<rparr>
   \<and> \<not> After \<lparr>sec = 10, nsec = 0, loc = UTC\<rparr> \<lparr>sec = 20, nsec = 999999999, loc = UTC\<rparr>
   \<and> Verify (NewMint (Some [7])) [] \<lparr>sec = 10, nsec = 0, loc = UTC\<rparr>
         \<lparr>Data = [1], Expiry = \<lparr>sec = 20, nsec = 999999999, loc = UTC\<rparr>,
            Signature = hmac_sha256 [7] ([1] @ PutUint64 (Unix \<lparr>sec = 20, nsec = 0, loc = UTC\<rparr>))\<rparr>
       = Return ((\<lparr>Data = [1], Expiry = \<lparr>sec = 20, nsec = 999999999, loc = UTC\<rparr>,
                    Signature = hmac_sha256 [7] ([1] @ PutUint64 (Unix \<lparr>sec = 20, nsec = 0, loc = UTC\<rparr>))\<rparr>, None),
                 \<lparr>secret = Some [7], once = True\<rparr>, [])"
  using C9_whole_seconds_only
          [of "\<lparr>sec = 20, nsec = 0, loc = UTC\<rparr>" "\<lparr>sec = 20, nsec = 999999999, loc = UTC\<rparr>"
              "NewMint (Some [7])" "[]" "[1]" "\<lparr>sec = 10, nsec = 0, loc = UTC\<rparr>"
              "\<lparr>Data = [1], Expiry = \<lparr>sec = 20, nsec = 0, loc = UTC\<rparr>,
                 Signature = hmac_sha256 [7] ([1] @ PutUint64 (Unix \<lparr>sec = 20, nsec = 0, loc = UTC\<rparr>))\<rparr>"]
  by (simp add: Unix_def After_def Sign_eq Verify_eq NewMint_def once_Do_def key_def)

subsection \<open>The secret of a Mint\<close>

lemma step_Mint:
  assumes "step m rng c = Return (r, m', rng')"
  shows "m' = m \<or> (\<exists>rng0 rng1. once_Do m rng0 = Return (m', rng1))"
proof (cases c)
  case (CallSign d e)
  with assms show ?thesis by (auto simp: Sign_eq split: outcome.splits)
next
  case (CallGenerate n e)
  with assms show ?thesis
    by (auto simp: Generate_def Sign_eq rand_Read_def split: outcome.splits if_splits)
next
  case (CallVerify now b)
  with assms show ?thesis by (auto simp: Verify_eq split: outcome.splits if_splits)
qed

lemma once_Do_Return_once: "once_Do m rng = Return (m', rng') \<Longrightarrow> once m'"
  by (auto simp: once_Do_def rand_Read_def split: if_splits prod.splits option.splits)

lemma once_Do_Return_fixed:
  "once_Do m rng = Return (m', rng') \<Longrightarrow> once m \<Longrightarrow> m' = m"
  by (simp add: once_Do_def)

lemma once_Do_Return_secret:
  "once_Do m rng = Return (m', rng') \<Longrightarrow> secret m = Some k \<Longrightarrow> secret m' = Some k"
  by (auto simp: once_Do_def split: if_splits)

lemma once_Do_Return_generated:
  "once_Do m rng = Return (m', rng') \<Longrightarrow> secret m = None \<Longrightarrow> \<not> once m \<Longrightarrow>
     secret m' = Some (take 256 rng) \<and> 256 \<le> length rng \<and> rng' = drop 256 rng"
  by (auto simp: once_Do_def rand_Read_def split: if_splits)

lemma step_once_fixed: "step m rng c = Return (r, m', rng') \<Longrightarrow> once m \<Longrightarrow> m' = m"
  using step_Mint once_Do_Return_fixed by blast

lemma step_secret:
  "step m rng c = Return (r, m', rng') \<Longrightarrow> secret m = Some k \<Longrightarrow> secret m' = Some k"
  using step_Mint once_Do_Return_secret by blast

lemma run_once_fixed: "run m rng cs = Return (rs, m', rng') \<Longrightarrow> once m \<Longrightarrow> m' = m"
proof (induction cs arbitrary: m rng rs)
  case Nil
  then show ?case by simp
next
  case (Cons c cs)
  from Cons.prems(1) obtain r m1 rng1 rs1 where
    st: "step m rng c = Return (r, m1, rng1)" and rn: "run m1 rng1 cs = Return (rs1, m', rng')"
    by (auto split: outcome.splits)
  from st Cons.prems(2) have "m1 = m" by (rule step_once_fixed)
  with Cons.IH [OF rn] Cons.prems(2) show ?case by simp
qed

lemma run_secret:
  "run m rng cs = Return (rs, m', rng') \<Longrightarrow> secret m = Some k \<Longrightarrow> secret m' = Some k"
proof (induction cs arbitrary: m rng rs)
  case Nil
  then show ?case by simp
next
  case (Cons c cs)
  from Cons.prems(1) obtain r m1 rng1 rs1 where
    st: "step m rng c = Return (r, m1, rng1)" and rn: "run m1 rng1 cs = Return (rs1, m', rng')"
    by (auto split: outcome.splits)
  from st Cons.prems(2) have "secret m1 = Some k" by (rule step_secret)
  with Cons.IH [OF rn] show ?case by simp
qed


text \<open>The random bytes a call consumes are a prefix of the pool.\<close>

lemma once_Do_generated:
  assumes "once_Do m rng = Return (m', rng')" "secret m = None" "\<not> once m"
  shows "once m' \<and> secret m' = Some (take 256 rng) \<and> 256 \<le> length rng"
  using assms once_Do_Return_generated once_Do_Return_once by blast

lemma step_generated:
  assumes "step m rng c = Return (r, m', rng')" "secret m = None" "\<not> once m"
  shows "m' = m \<or>
         (once m' \<and> (\<exists>n. secret m' = Some (take 256 (drop n rng)) \<and> n + 256 \<le> length rng))"
proof (cases c)
  case (CallSign d e)
  with assms have "once_Do m rng = Return (m', rng')"
    by (auto simp: Sign_eq split: outcome.splits)
  from once_Do_generated [OF this assms(2,3)] show ?thesis
    by (intro disjI2 conjI exI [of _ 0]) simp_all
next
  case (CallGenerate n e)
  show ?thesis
  proof (cases "nat n \<le> length rng")
    case False
    with assms CallGenerate show ?thesis
      by (simp add: Generate_def rand_Read_def split: if_splits)
  next
    case True
    with assms CallGenerate have "once_Do m (drop (nat n) rng) = Return (m', rng')"
      by (auto simp: Generate_def Sign_eq rand_Read_def split: outcome.splits if_splits)
    from once_Do_generated [OF this assms(2,3)] True show ?thesis
      by (intro disjI2 conjI exI [of _ "nat n"]) auto
  qed
next
  case (CallVerify now b)
  show ?thesis
  proof (cases "After now (Expiry b)")
    case True
    with assms CallVerify show ?thesis by (simp add: Verify_eq)
  next
    case False
    with assms CallVerify have "once_Do m rng = Return (m', rng')"
      by (auto simp: Verify_eq split: outcome.splits)
    from once_Do_generated [OF this assms(2,3)] show ?thesis
      by (intro disjI2 conjI exI [of _ 0]) simp_all
  qed
qed


lemma once_Do_entropy:
  "once_Do m rng = Return (m', rng') \<Longrightarrow> \<exists>k \<le> length rng. rng' = drop k rng"
  by (auto simp: once_Do_def rand_Read_def split: if_splits intro: exI [of _ 0])

lemma step_entropy:
  assumes "step m rng c = Return (r, m', rng')"
  shows "\<exists>k \<le> length rng. rng' = drop k rng"
proof (cases c)
  case (CallSign d e)
  with assms show ?thesis
    by (auto simp: Sign_eq split: outcome.splits dest: once_Do_entropy)
next
  case (CallGenerate n e)
  show ?thesis
  proof (cases "nat n \<le> length rng")
    case False
    with assms CallGenerate show ?thesis
      by (auto simp: Generate_def rand_Read_def split: if_splits intro: exI [of _ 0])
  next
    case True
    with assms CallGenerate have "once_Do m (drop (nat n) rng) = Return (m', rng')"
      by (auto simp: Generate_def Sign_eq rand_Read_def split: outcome.splits if_splits)
    then obtain k where "k \<le> length (drop (nat n) rng)" "rng' = drop k (drop (nat n) rng)"
      using once_Do_entropy by blast
    with True show ?thesis
      by (intro exI [of _ "k + nat n"]) auto
  qed
next
  case (CallVerify now b)
  with assms show ?thesis
    by (auto simp: Verify_eq split: outcome.splits if_splits dest: once_Do_entropy
             intro: exI [of _ 0])
qed

lemma run_generated:
  assumes "run m rng cs = Return (rs, m', rng')" "secret m = None" "\<not> once m"
  shows "m' = m \<or>
         (once m' \<and> (\<exists>n. secret m' = Some (take 256 (drop n rng)) \<and> n + 256 \<le> length rng))"
  using assms
proof (induction cs arbitrary: m rng rs)
  case Nil
  then show ?case by simp
next
  case (Cons c cs)
  from Cons.prems(1) obtain r m1 rng1 rs1 where
    st: "step m rng c = Return (r, m1, rng1)" and rn: "run m1 rng1 cs = Return (rs1, m', rng')"
    by (auto split: outcome.splits)
  from step_generated [OF st Cons.prems(2,3)] show ?case
  proof
    assume same: "m1 = m"
    from step_entropy [OF st] obtain k where k: "k \<le> length rng" "rng1 = drop k rng"
      by blast
    from Cons.IH [OF rn] same Cons.prems(2,3)
    have "m' = m \<or> (once m' \<and>
            (\<exists>n. secret m' = Some (take 256 (drop n rng1)) \<and> n + 256 \<le> length rng1))"
      by simp
    then show ?thesis
    proof
      assume "m' = m"
      then show ?thesis by simp
    next
      assume "once m' \<and>
        (\<exists>n. secret m' = Some (take 256 (drop n rng1)) \<and> n + 256 \<le> length rng1)"
      then obtain n where n: "once m'" "secret m' = Some (take 256 (drop n rng1))"
        "n + 256 \<le> length rng1"
        by blast
      with k have "secret m' = Some (take 256 (drop (n + k) rng))" "(n + k) + 256 \<le> length rng"
        by auto
      with n(1) show ?thesis by blast
    qed
  next
    assume first: "once m1 \<and>
      (\<exists>n. secret m1 = Some (take 256 (drop n rng)) \<and> n + 256 \<le> length rng)"
    then have "m' = m1" using run_once_fixed [OF rn] by simp
    with first show ?thesis by simp
  qed
qed













text \<open>
  Claim C10. \<open>NewMint(nil)\<close> is the zero value of Mint: its first signature panics when
  the random source fails and otherwise is computed under 256 bytes read from the source,
  which become the secret. \<open>NewMint\<close> of a secret that is not nil, the empty slice
  included, computes its first signature under that secret and reads nothing from the
  random source; after any sequence of calls the Mint still holds that secret and still
  signs under it.
\<close>

theorem C10_NewMint:
  "NewMint None = zeroMint
   \<and> createSignature (NewMint None) rng d e
       = (if 256 \<le> length rng
          then Return ((hmac_sha256 (take 256 rng) (d @ PutUint64 (Unix e)), None),
                       \<lparr>secret = Some (take 256 rng), once = True\<rparr>, drop 256 rng)
          else Panic (Errorf (''rand.Read(Mint.secret): '' @ Error ErrRand) [ErrRand]))
   \<and> createSignature (NewMint (Some s)) rng d e
       = Return ((hmac_sha256 s (d @ PutUint64 (Unix e)), None),
                 \<lparr>secret = Some s, once = True\<rparr>, rng)
   \<and> (run (NewMint (Some s)) rng cs = Return (rs, m', rng') \<longrightarrow>
        secret m' = Some s
        \<and> createSignature m' rng' d e
            = Return ((hmac_sha256 s (d @ PutUint64 (Unix e)), None),
                      \<lparr>secret = Some s, once = True\<rparr>, rng'))"
proof -
  have 1: "NewMint None = zeroMint" by (simp add: NewMint_def zeroMint_def)
  have 2: "createSignature (NewMint None) rng d e
       = (if 256 \<le> length rng
          then Return ((hmac_sha256 (take 256 rng) (d @ PutUint64 (Unix e)), None),
                       \<lparr>secret = Some (take 256 rng), once = True\<rparr>, drop 256 rng)
          else Panic (Errorf (''rand.Read(Mint.secret): '' @ Error ErrRand) [ErrRand]))"
    by (simp add: createSignature_eq once_Do_nil NewMint_def key_def)
  have 3: "createSignature (NewMint (Some s)) rng d e
       = Return ((hmac_sha256 s (d @ PutUint64 (Unix e)), None),
                 \<lparr>secret = Some s, once = True\<rparr>, rng)"
    by (simp add: createSignature_secret NewMint_def)
  have 4: "run (NewMint (Some s)) rng cs = Return (rs, m', rng') \<longrightarrow>
        secret m' = Some s
        \<and> createSignature m' rng' d e
            = Return ((hmac_sha256 s (d @ PutUint64 (Unix e)), None),
                      \<lparr>secret = Some s, once = True\<rparr>, rng')"
  proof
    assume r: "run (NewMint (Some s)) rng cs = Return (rs, m', rng')"
    have s: "secret m' = Some s"
      using run_secret [OF r] by (simp add: NewMint_def)
    show "secret m' = Some s
        \<and> createSignature m' rng' d e
            = Return ((hmac_sha256 s (d @ PutUint64 (Unix e)), None),
                      \<lparr>secret = Some s, once = True\<rparr>, rng')"
      using s createSignature_secret [OF s] by (cases m') simp
  qed
  from 1 2 3 4 show ?thesis by blast
qed


theorem C10_NewMint_witness:
  "run (NewMint (Some [])) []
       [CallSign [1] \<lparr>sec = 20, nsec = 0, loc = UTC\<rparr>,
        CallVerify \<lparr>sec = 10, nsec = 0, loc = UTC\<rparr>
          \<lparr>Data = [1], Expiry = \<lparr>sec = 20, nsec = 0, loc = UTC\<rparr>, Signature = []\<rparr>]
     = Return ([(\<lparr>Data = [1], Expiry = \<lparr>sec = 20, nsec = 0, loc = UTC\<rparr>,
                   Signature = hmac_sha256 []
                     ([1] @ PutUint64 (Unix \<lparr>sec = 20, nsec = 0, loc = UTC\<rparr>))\<rparr>, None),
                (\<lparr>Data = [1], Expiry = \<lparr>sec = 20, nsec = 0, loc = UTC\<rparr>, Signature = []\<rparr>,
                 Some ErrVerifySignature)],
               \<lparr>secret = Some [], once = True\<rparr>, [])
   \<and> secret \<lparr>secret = Some [], once = True\<rparr> = Some []
   \<and> createSignature \<lparr>secret = Some [], once = True\<rparr> [] [2] \<lparr>sec = 30, nsec = 0, loc = UTC\<rparr>
       = Return ((hmac_sha256 [] ([2] @ PutUint64 (Unix \<lparr>sec = 30, nsec = 0, loc = UTC\<rparr>)), None),
                 \<lparr>secret = Some [], once = True\<rparr>, [])"
  using C10_NewMint
          [of "[]" "[2]" "\<lparr>sec = 30, nsec = 0, loc = UTC\<rparr>" "[]"
              "[CallSign [1] \<lparr>sec = 20, nsec = 0, loc = UTC\<rparr>,
                CallVerify \<lparr>sec = 10, nsec = 0, loc = UTC\<rparr>
                  \<lparr>Data = [1], Expiry = \<lparr>sec = 20, nsec = 0, loc = UTC\<rparr>, Signature = []\<rparr>]"
              "[(\<lparr>Data = [1], Expiry = \<lparr>sec = 20, nsec = 0, loc = UTC\<rparr>,
                   Signature = hmac_sha256 []
                     ([1] @ PutUint64 (Unix \<lparr>sec = 20, nsec = 0, loc = UTC\<rparr>))\<rparr>, None),
                (\<lparr>Data = [1], Expiry = \<lparr>sec = 20, nsec = 0, loc = UTC\<rparr>, Signature = []\<rparr>,
                 Some ErrVerifySignature)]"
              "\<lparr>secret = Some [], once = True\<rparr>" "[]"]
  by (simp add: Sign_eq Verify_eq After_def NewMint_def once_Do_def key_def hmac_sha256_not_Nil)

subsection \<open>Signing, then verifying\<close>

text \<open>
  As claim C4 is stated it fails: on a Mint without a secret whose random source fails,
  \<open>Sign\<close> panics.
\<close>

theorem C4_counterexample:
  "After \<lparr>sec = 20, nsec = 0, loc = UTC\<rparr> \<lparr>sec = 10, nsec = 0, loc = UTC\<rparr>
   \<and> Sign zeroMint [] [1] \<lparr>sec = 20, nsec = 0, loc = UTC\<rparr>
       = Panic (Errorf (''rand.Read(Mint.secret): '' @ Error ErrRand) [ErrRand])"
  by (simp add: After_def Sign_eq zeroMint_def once_Do_def rand_Read_def)

text \<open>
  Claim C4, amended. When the Mint holds a secret, or has run its one-time
  initialisation, or the random source delivers the 256 bytes of a new secret, then for
  every payload and every expiry strictly after the current time \<open>Sign\<close> returns a
  token with the nil error, its Data is the payload and its Expiry the expiry, and
  \<open>Verify\<close> of that token by the same Mint returns the token with the nil error.
\<close>

theorem C4_sign_then_verify:
  assumes "secret m \<noteq> None \<or> once m \<or> 256 \<le> length rng" and "After expires now"
  shows "\<exists>tok m' rng'.
           Sign m rng data expires = Return ((tok, None), m', rng')
         \<and> Data tok = data \<and> Expiry tok = expires
         \<and> Verify m' rng' now tok = Return ((tok, None), m', rng')"
proof -
  from assms(1) have "\<exists>m' rng'. once_Do m rng = Return (m', rng')"
    by (cases "once m"; cases "secret m") (simp_all add: once_Do_def rand_Read_def)
  then obtain m' rng' where o: "once_Do m rng = Return (m', rng')"
    by blast
  let ?tok = "\<lparr>Data = data, Expiry = expires,
                Signature = hmac_sha256 (key m') (data @ PutUint64 (Unix expires))\<rparr>"
  have s: "Sign m rng data expires = Return ((?tok, None), m', rng')"
    by (simp add: Sign_eq o)
  have "once m'" using o by (rule once_Do_Return_once)
  then have "once_Do m' rng' = Return (m', rng')" by (rule once_Do_once)
  moreover have "\<not> After now expires" using assms(2) by (rule After_asym)
  ultimately have "Verify m' rng' now ?tok = Return ((?tok, None), m', rng')"
    by (simp add: Verify_eq)
  with s show ?thesis by (intro exI [of _ ?tok] exI [of _ m'] exI [of _ rng']) simp
qed

theorem C4_sign_then_verify_witness:
  "256 \<le> length (replicate 256 (7 :: byte))
   \<and> After \<lparr>sec = 20, nsec = 0, loc = UTC\<rparr> \<lparr>sec = 10, nsec = 0, loc = UTC\<rparr>
   \<and> (\<exists>tok m' rng'.
           Sign zeroMint (replicate 256 7) [1] \<lparr>sec = 20, nsec = 0, loc = UTC\<rparr> = Return ((tok, None), m', rng')
         \<and> Data tok = [1] \<and> Expiry tok = \<lparr>sec = 20, nsec = 0, loc = UTC\<rparr>
         \<and> Verify m' rng' \<lparr>sec = 10, nsec = 0, loc = UTC\<rparr> tok = Return ((tok, None), m', rng'))"
proof -
  have 1: "secret zeroMint \<noteq> None \<or> once zeroMint \<or> 256 \<le> length (replicate 256 (7 :: byte))"
    by simp
  have 2: "After \<lparr>sec = 20, nsec = 0, loc = UTC\<rparr> \<lparr>sec = 10, nsec = 0, loc = UTC\<rparr>"
    by (simp add: After_def)
  from 2 C4_sign_then_verify [OF 1 2] show ?thesis by simp
qed





end
